theory Spec2Isabelle
  imports Complex_Main
begin

section \<open>The language-model notebook: data model\<close>

text \<open>
  The notebook \<^verbatim>\<open>docs/examples/language_model/language_model.ipynb\<close> defines three
  functions, \<^verbatim>\<open>detach\<close>, \<^verbatim>\<open>evaluate\<close> and \<^verbatim>\<open>train\<close>, and calls the dataset method
  \<^verbatim>\<open>bptt_batchify\<close>. Python floats are modelled as reals: rounding and nan are outside
  the model; \<^verbatim>\<open>math.exp\<close> raises where its result is beyond the largest float.
\<close>

subsection \<open>The batchifier\<close>

text \<open>
  Modelled from the spec: \<^verbatim>\<open>bptt_batchify\<close> (a method of the dataset class; the notebook
  only calls it, with \<^verbatim>\<open>last_batch='discard'\<close>). The spec, section 4.1: given a flat
  sequence of N token ids, a batch size B and a window length T, produce floor(N/B) rows
  arranged into B parallel streams, then slice those streams into consecutive
  non-overlapping windows of length T, the last partial window discarded; section 3:
  each tensor is shaped (bptt_length, batch_size) and the target is the input shifted by
  one time step in the original token stream.

  A tensor of shape (rows, B) is a list of rows, each a list of B token ids.
  Stream \<open>j\<close> is the \<open>j\<close>-th run of \<open>N div B\<close> consecutive tokens.
\<close>

definition stream :: "'a list \<Rightarrow> nat \<Rightarrow> nat \<Rightarrow> 'a list" where
  "stream tokens B j = (let R = length tokens div B in take R (drop (j * R) tokens))"

definition batchify :: "'a list \<Rightarrow> nat \<Rightarrow> 'a list list" where
  "batchify tokens B =
     (let R = length tokens div B
      in map (\<lambda>t. map (\<lambda>j. stream tokens B j ! t) [0..<B]) [0..<R])"

text \<open>
  Slicing the rows into windows: a window is cut only while \<open>T\<close> input rows and the
  row after them (the last target row) are there; the next window starts \<open>T\<close> rows on.
\<close>

function slice_windows :: "nat \<Rightarrow> 'a list \<Rightarrow> ('a list \<times> 'a list) list" where
  "slice_windows T rows =
     (if 0 < T \<and> T < length rows
      then (take T rows, take T (tl rows)) # slice_windows T (drop T rows)
      else [])"
  by pat_completeness auto
termination
  by (relation "measure (\<lambda>(T, rows). length rows)") auto

text \<open>
  The spec states the contract for B >= 1 and T >= 1 only; for B = 0 or T = 0 the model
  gives no result.
\<close>

definition bptt_batchify ::
  "'a list \<Rightarrow> nat \<Rightarrow> nat \<Rightarrow> ('a list list \<times> 'a list list) list option" where
  "bptt_batchify tokens T B =
     (if B = 0 \<or> T = 0 then None else Some (slice_windows T (batchify tokens B)))"

text \<open>The shape of a tensor given as a list of rows: (rows, columns), when all rows agree.\<close>

definition has_shape :: "'a list list \<Rightarrow> nat \<Rightarrow> nat \<Rightarrow> bool" where
  "has_shape x r c = (length x = r \<and> list_all (\<lambda>row. length row = c) x)"

text \<open>
  The count of window pairs in the words of the spec, section 8:
  floor((N // B - 1) / T), over the integers.
\<close>

definition spec_window_count :: "nat \<Rightarrow> nat \<Rightarrow> nat \<Rightarrow> int" where
  "spec_window_count N B T = (int (N div B) - 1) div int T"

subsection \<open>Tensors and hidden states\<close>

text \<open>
  An array of the framework, as far as the notebook reads it: its shape, its numeric
  values and its link into the gradient graph (the node that computed it, if it is
  recorded). The framework's own \<^verbatim>\<open>NDArray.detach()\<close> returns an array on the same data
  with no link into the graph; \<^verbatim>\<open>mx.nd.zeros\<close> makes an array of zeros.
\<close>

record ndarray =
  nd_shape :: "nat list"
  nd_values :: "real list"
  nd_node :: "nat option"

definition nd_detach :: "ndarray \<Rightarrow> ndarray" where
  "nd_detach a = a\<lparr>nd_node := None\<rparr>"

definition nd_zeros :: "nat list \<Rightarrow> ndarray" where
  "nd_zeros shape = \<lparr>nd_shape = shape, nd_values = replicate (prod_list shape) 0, nd_node = None\<rparr>"

text \<open>A hidden state: a tensor, or a Python tuple or list of hidden states.\<close>

datatype 't hidden = Tensor 't | PyTuple "'t hidden list" | PyList "'t hidden list"

text \<open>
  \<^verbatim>\<open>
  def detach(hidden):
      if isinstance(hidden, (tuple, list)):
          hidden = [detach(i) for i in hidden]
      else:
          hidden = hidden.detach()
      return hidden
  \<close>
\<close>

fun detach :: "ndarray hidden \<Rightarrow> ndarray hidden" where
  "detach (PyTuple xs) = PyList (map detach xs)"
| "detach (PyList xs) = PyList (map detach xs)"
| "detach (Tensor a) = Tensor (nd_detach a)"

text \<open>
  What a hidden state holds numerically: the tree of the shapes and values of its
  tensors, whatever the containers are and whatever the graph links are.
\<close>

datatype vtree = VLeaf "nat list" "real list" | VNode "vtree list"

fun hidden_values :: "ndarray hidden \<Rightarrow> vtree" where
  "hidden_values (Tensor a) = VLeaf (nd_shape a) (nd_values a)"
| "hidden_values (PyTuple xs) = VNode (map hidden_values xs)"
| "hidden_values (PyList xs) = VNode (map hidden_values xs)"

fun tensors :: "'t hidden \<Rightarrow> 't list" where
  "tensors (Tensor a) = [a]"
| "tensors (PyTuple xs) = concat (map tensors xs)"
| "tensors (PyList xs) = concat (map tensors xs)"

fun no_tuple :: "'t hidden \<Rightarrow> bool" where
  "no_tuple (Tensor a) = True"
| "no_tuple (PyTuple xs) = False"
| "no_tuple (PyList xs) = list_all no_tuple xs"

text \<open>The same structure with every tuple turned into a list.\<close>

fun as_lists :: "'t hidden \<Rightarrow> 't hidden" where
  "as_lists (Tensor a) = Tensor a"
| "as_lists (PyTuple xs) = PyList (map as_lists xs)"
| "as_lists (PyList xs) = PyList (map as_lists xs)"

text \<open>The elements a Python loop over a tuple or list goes through.\<close>

fun items :: "'t hidden \<Rightarrow> 't hidden list" where
  "items (PyTuple xs) = xs"
| "items (PyList xs) = xs"
| "items (Tensor a) = []"

subsection \<open>The framework and the notebook's globals\<close>

text \<open>
  The model, the loss, the optimizer and the device utilities belong to the external
  framework and are parameters here. \<open>'m\<close> is the state of the model object (its
  parameters and whatever else the framework keeps with it), \<open>'x\<close> a data or target
  tensor, \<open>'o\<close> the model's output, \<open>'p\<close> the parameter values.
  \<^item> \<open>fw_predict\<close>: \<^verbatim>\<open>model(data, hidden)\<close> outside \<^verbatim>\<open>autograd.record()\<close>;
  \<^item> \<open>fw_record\<close>: \<^verbatim>\<open>model(X, h)\<close> inside \<^verbatim>\<open>autograd.record()\<close>;
  \<^item> \<open>fw_loss\<close>: the values of \<^verbatim>\<open>loss(output.reshape(-3, -1), target.reshape(-1))\<close>, one for
    each token;
  \<^item> \<open>fw_begin_state\<close>: \<^verbatim>\<open>model.begin_state(n, func=f, ctx=ctx)\<close>;
  \<^item> \<open>fw_split\<close>: \<^verbatim>\<open>gluon.utils.split_and_load(x, context, batch_axis=1, even_split=True)\<close>,
    which raises when the batch axis does not divide evenly;
  \<^item> \<open>fw_size\<close>: \<^verbatim>\<open>x.size\<close>;
  \<^item> \<open>fw_step\<close>: \<^verbatim>\<open>L.backward()\<close>, \<^verbatim>\<open>clip_global_norm(grads, grad_clip)\<close> and
    \<^verbatim>\<open>trainer.step(1)\<close>, under the trainer's learning rate, the clip threshold and the
    recorded shards;
  \<^item> \<open>fw_params\<close>: the parameter values of the model.
\<close>

record ('m, 'x, 'o, 'p) framework =
  fw_predict :: "'m \<Rightarrow> 'x \<Rightarrow> ndarray hidden \<Rightarrow> ('o \<times> ndarray hidden) \<times> 'm"
  fw_record :: "'m \<Rightarrow> 'x \<Rightarrow> ndarray hidden \<Rightarrow> ('o \<times> ndarray hidden) \<times> 'm"
  fw_loss :: "'o \<Rightarrow> 'x \<Rightarrow> real list"
  fw_begin_state :: "'m \<Rightarrow> nat \<Rightarrow> (nat list \<Rightarrow> ndarray) \<Rightarrow> ndarray hidden"
  fw_split :: "'x \<Rightarrow> nat \<Rightarrow> 'x list option"
  fw_size :: "'x \<Rightarrow> nat"
  fw_step :: "real \<Rightarrow> real \<Rightarrow> 'm \<Rightarrow> ('x \<times> 'x \<times> ndarray hidden) list \<Rightarrow> 'm"
  fw_params :: "'m \<Rightarrow> 'p"

text \<open>The module-level names the functions read.\<close>

record config =
  num_gpus :: nat
  log_interval :: nat
  batch_size :: nat
  grad_clip :: real
  model_name :: string
  dataset_name :: string

text \<open>
  \<^verbatim>\<open>context = [mx.gpu(i) for i in range(num_gpus)] if num_gpus else [mx.cpu()]\<close>:
  the number of devices.
\<close>

definition context_count :: "config \<Rightarrow> nat" where
  "context_count cfg = (if num_gpus cfg = 0 then 1 else num_gpus cfg)"

text \<open>
  What stops a run. \<open>ZeroDivisionError\<close>, \<open>ValueError\<close> and \<open>OverflowError\<close> are raised
  by the source. \<open>NanLoss\<close> stands for a mean over no token after at least one batch was read: the
  total is a numpy scalar as soon as a loss was added to it, so there the source divides
  a numpy scalar by zero and goes on with nan (or inf), which the reals do not have; the
  model stops the run instead.
\<close>

datatype error = ZeroDivisionError | ValueError | OverflowError | NanLoss

text \<open>
  \<^verbatim>\<open>math.exp(x)\<close> raises \<^verbatim>\<open>OverflowError\<close> when the result is beyond the largest float,
  (2 - 2^-52) * 2^1023, that is for \<open>x\<close> above about 709.78; otherwise the model takes the
  real exponential.
\<close>

definition float_max :: real where
  "float_max = (2 - 1 / 2 ^ 52) * 2 ^ 1023"

definition math_exp :: "real \<Rightarrow> error + real" where
  "math_exp x = (if exp x \<le> float_max then Inr (exp x) else Inl OverflowError)"

subsection \<open>Evaluation\<close>

text \<open>
  \<^verbatim>\<open>
  def evaluate(model, data_source, ctx):
      total_L = 0.0
      ntotal = 0
      hidden = model.begin_state(batch_size, func=mx.nd.zeros, ctx=ctx)
      for i, (data, target) in enumerate(data_source):
          data = data.as_in_context(ctx)
          target = target.as_in_context(ctx)
          output, hidden = model(data, hidden)
          L = loss(output.reshape(-3, -1),
                   target.reshape(-1))
          total_L += mx.nd.sum(L).asscalar()
          ntotal += L.size
      return total_L / ntotal
  \<close>
  The model object is passed through and returned, so that what the call does to it is
  part of the result. Copying to a device (\<^verbatim>\<open>as_in_context\<close>) changes no value.
\<close>

fun evaluate_loop ::
  "('m, 'x, 'o, 'p) framework \<Rightarrow> ('x \<times> 'x) list \<Rightarrow> real \<times> nat \<times> ndarray hidden \<times> 'm
     \<Rightarrow> real \<times> nat \<times> ndarray hidden \<times> 'm" where
  "evaluate_loop fw [] acc = acc"
| "evaluate_loop fw ((data, target) # rest) (total_L, ntotal, hidden, m) =
     (let ((output, hidden'), m') = fw_predict fw m data hidden;
          L = fw_loss fw output target
      in evaluate_loop fw rest (total_L + sum_list L, ntotal + length L, hidden', m'))"

definition evaluate ::
  "('m, 'x, 'o, 'p) framework \<Rightarrow> config \<Rightarrow> 'm \<Rightarrow> ('x \<times> 'x) list \<Rightarrow> (error + real) \<times> 'm" where
  "evaluate fw cfg m data_source =
     (let hidden = fw_begin_state fw m (batch_size cfg) nd_zeros;
          (total_L, ntotal, hidden', m') = evaluate_loop fw data_source (0, 0, hidden, m)
      in (if ntotal = 0
          then Inl (if data_source = [] then ZeroDivisionError else NanLoss)
          else Inr (total_L / real ntotal), m'))"

text \<open>
  The per-token losses of the batches of a dataset, batch by batch, the hidden state
  starting at \<open>hidden\<close> and carried from each batch to the next: the sequence the spec's
  contract of the evaluator speaks of.
\<close>

fun batch_losses ::
  "('m, 'x, 'o, 'p) framework \<Rightarrow> 'm \<Rightarrow> ndarray hidden \<Rightarrow> ('x \<times> 'x) list \<Rightarrow> real list list" where
  "batch_losses fw m hidden [] = []"
| "batch_losses fw m hidden ((data, target) # rest) =
     (let ((output, hidden'), m') = fw_predict fw m data hidden
      in fw_loss fw output target # batch_losses fw m' hidden' rest)"

subsection \<open>The training loop\<close>

text \<open>
  What \<^verbatim>\<open>train\<close> changes outside its own variables: the model object, the learning rate
  of the trainer (a module-level object, made with \<^verbatim>\<open>'learning_rate': lr\<close>), the
  parameter files written by \<^verbatim>\<open>save_params\<close> (in the order written, each with the
  parameter values saved) and the lines printed. A printed line keeps the numbers it
  shows, not their formatting; throughput figures are wall-clock time and are left out.
\<close>

datatype line =
    IntervalLine nat nat nat real real
  | EpochThroughputLine nat
  | ValidLine nat real real
  | TestLine real real
  | LearningRateLine real
  | TotalThroughputLine

record ('m, 'p) session =
  model :: 'm
  learning_rate :: real
  files :: "(string \<times> 'p) list"
  printed :: "line list"

text \<open>The variables of \<^verbatim>\<open>train\<close> that live across epochs.\<close>

record ('m, 'p) train_vars =
  ses :: "('m, 'p) session"
  best_val :: "real option"
  lr :: real
  val_L :: "real option"

text \<open>The variables of the loop over the batches of one epoch.\<close>

record ('m, 'p) batch_vars =
  bses :: "('m, 'p) session"
  hiddens :: "ndarray hidden list"
  total_L :: real
  n_total :: nat

text \<open>\<^verbatim>\<open>best_val = float("Inf")\<close> is \<open>None\<close>; \<^verbatim>\<open>val_L < best_val\<close>:\<close>

definition improved :: "real \<Rightarrow> real option \<Rightarrow> bool" where
  "improved v best = (case best of None \<Rightarrow> True | Some b \<Rightarrow> v < b)"

text \<open>\<^verbatim>\<open>'{}_{}-{}.params'.format(model_name, dataset_name, epoch)\<close>\<close>

definition digit_char :: "nat \<Rightarrow> char" where
  "digit_char d = ''0123456789'' ! d"

function str_nat :: "nat \<Rightarrow> string" where
  "str_nat n = (if n < 10 then [digit_char n] else str_nat (n div 10) @ [digit_char (n mod 10)])"
  by pat_completeness auto
termination
  by (relation "measure id") auto

definition params_file :: "config \<Rightarrow> nat \<Rightarrow> string" where
  "params_file cfg epoch = model_name cfg @ ''_'' @ dataset_name cfg @ ''-'' @ str_nat epoch @ ''.params''"

text \<open>
  Reading a decimal numeral back: the characters 0 to 9 are the codes 48 to 57, and a
  numeral denotes the number its digits give, the most significant first.
\<close>

definition is_digit :: "char \<Rightarrow> bool" where
  "is_digit c = (48 \<le> (of_char c :: nat) \<and> (of_char c :: nat) \<le> 57)"

definition decimal_value :: "string \<Rightarrow> nat" where
  "decimal_value cs = foldl (\<lambda>a c. 10 * a + ((of_char c :: nat) - 48)) 0 cs"

text \<open>
  \<^verbatim>\<open>
              with autograd.record():
                  for j, (X, y, h) in enumerate(zip(data_list, target_list, hiddens)):
                      output, h = model(X, h)
                      batch_L = loss(output.reshape(-3, -1), y.reshape(-1))
                      L = L + batch_L.as_in_context(context[0]) / X.size
                      Ls.append(batch_L)
                      hiddens[j] = h
  \<close>
  \<open>L\<close> only feeds \<^verbatim>\<open>L.backward()\<close>, which is part of \<open>fw_step\<close>.
\<close>

fun record_loop ::
  "('m, 'x, 'o, 'p) framework \<Rightarrow> ('x \<times> 'x \<times> ndarray hidden) list \<Rightarrow> nat
     \<Rightarrow> 'm \<times> ndarray hidden list \<times> real list list \<Rightarrow> 'm \<times> ndarray hidden list \<times> real list list" where
  "record_loop fw [] j acc = acc"
| "record_loop fw ((X, y, h) # rest) j (m, hs, Ls) =
     (let ((output, h'), m') = fw_record fw m X h;
          batch_L = fw_loss fw output y
      in record_loop fw rest (Suc j) (m', hs[j := h'], Ls @ [batch_L]))"

text \<open>
  The body of the loop over the batches, for batch \<open>i\<close> of epoch \<open>epoch\<close>; \<open>n\<close> is
  \<^verbatim>\<open>len(train_data)\<close>.
  \<^verbatim>\<open>
          for i, (data, target) in enumerate(train_data):
              data_list = gluon.utils.split_and_load(data, context,
                                                     batch_axis=1, even_split=True)
              target_list = gluon.utils.split_and_load(target, context,
                                                       batch_axis=1, even_split=True)
              hiddens = detach(hiddens)
              L = 0
              Ls = []
              with autograd.record(): ...
              L.backward()
              grads = [p.grad(x.context) for p in parameters for x in data_list]
              gluon.utils.clip_global_norm(grads, grad_clip)

              trainer.step(1)

              total_L += sum([mx.nd.sum(l).asscalar() for l in Ls])
              n_total += data.size

              if i % log_interval == 0 and i > 0:
                  cur_L = total_L / n_total
                  print('[Epoch %d Batch %d/%d] loss %.2f, ppl %.2f, '
                        'throughput %.2f samples/s'%(
                      epoch, i, len(train_data), cur_L, math.exp(cur_L),
                      batch_size * log_interval / (time.time() - start_log_interval_time)))
                  total_L, n_total = 0.0, 0
                  start_log_interval_time = time.time()
  \<close>
\<close>

definition train_batch ::
  "('m, 'x, 'o, 'p) framework \<Rightarrow> config \<Rightarrow> nat \<Rightarrow> nat \<Rightarrow> nat \<Rightarrow> 'x \<times> 'x \<Rightarrow> ('m, 'p) batch_vars
     \<Rightarrow> (error \<times> ('m, 'p) session) + ('m, 'p) batch_vars" where
  "train_batch fw cfg epoch n i batch st =
     (case batch of (data, target) \<Rightarrow>
      (case fw_split fw data (context_count cfg) of
         None \<Rightarrow> Inl (ValueError, bses st)
       | Some data_list \<Rightarrow>
      (case fw_split fw target (context_count cfg) of
         None \<Rightarrow> Inl (ValueError, bses st)
       | Some target_list \<Rightarrow>
          (let hs = items (detach (PyList (hiddens st)));
               shards = zip data_list (zip target_list hs);
               (m', hs', Ls) = record_loop fw shards 0 (model (bses st), hs, []);
               m'' = fw_step fw (learning_rate (bses st)) (grad_clip cfg) m' shards;
               s' = (bses st)\<lparr>model := m''\<rparr>;
               total_L' = total_L st + sum_list (map sum_list Ls);
               n_total' = n_total st + fw_size fw data
           in if log_interval cfg = 0 then Inl (ZeroDivisionError, s')
              else if i mod log_interval cfg = 0 \<and> 0 < i
              then (if n_total' = 0 then Inl (NanLoss, s')
                    else (let cur_L = total_L' / real n_total'
                          in case math_exp cur_L of
                               Inl e \<Rightarrow> Inl (e, s')
                             | Inr ppl \<Rightarrow>
                                 Inr \<lparr>bses = s'\<lparr>printed := printed s' @
                                               [IntervalLine epoch i n cur_L ppl]\<rparr>,
                                      hiddens = hs', total_L = 0, n_total = 0\<rparr>))
              else Inr \<lparr>bses = s', hiddens = hs', total_L = total_L', n_total = n_total'\<rparr>))))"

fun train_batches ::
  "('m, 'x, 'o, 'p) framework \<Rightarrow> config \<Rightarrow> nat \<Rightarrow> nat \<Rightarrow> nat \<Rightarrow> ('x \<times> 'x) list \<Rightarrow> ('m, 'p) batch_vars
     \<Rightarrow> (error \<times> ('m, 'p) session) + ('m, 'p) batch_vars" where
  "train_batches fw cfg epoch n i [] st = Inr st"
| "train_batches fw cfg epoch n i (batch # rest) st =
     (case train_batch fw cfg epoch n i batch st of
        Inl e \<Rightarrow> Inl e
      | Inr st' \<Rightarrow> train_batches fw cfg epoch n (Suc i) rest st')"

text \<open>
  The start of an epoch:
  \<^verbatim>\<open>
          total_L, n_total = 0.0, 0
          hiddens = [model.begin_state(batch_size//len(context), func=mx.nd.zeros, ctx=ctx)
                     for ctx in context]
  \<close>
\<close>

definition begin_epoch ::
  "('m, 'x, 'o, 'p) framework \<Rightarrow> config \<Rightarrow> ('m, 'p) session \<Rightarrow> ('m, 'p) batch_vars" where
  "begin_epoch fw cfg s =
     \<lparr>bses = s,
      hiddens = map (\<lambda>ctx. fw_begin_state fw (model s) (batch_size cfg div context_count cfg) nd_zeros)
                  [0..<context_count cfg],
      total_L = 0, n_total = 0\<rparr>"

text \<open>
  The end of an epoch, after the loop over the batches:
  \<^verbatim>\<open>
          print('[Epoch %d] throughput %.2f samples/s'%(
                      epoch, len(train_data)*batch_size / (time.time() - start_epoch_time)))
          val_L = evaluate(model, val_data, context[0])
          print('[Epoch %d] time cost %.2fs, valid loss %.2f, valid ppl %.2f'%(
              epoch, time.time()-start_epoch_time, val_L, math.exp(val_L)))

          if val_L < best_val:
              best_val = val_L
              test_L = evaluate(model, test_data, context[0])
              model.save_params('{}_{}-{}.params'.format(model_name, dataset_name, epoch))
              print('test loss %.2f, test ppl %.2f'%(test_L, math.exp(test_L)))
          else:
              lr = lr*0.25
              print('Learning rate now %f'%(lr))
              trainer.set_learning_rate(lr)
  \<close>
\<close>

definition end_epoch ::
  "('m, 'x, 'o, 'p) framework \<Rightarrow> config \<Rightarrow> ('x \<times> 'x) list \<Rightarrow> ('x \<times> 'x) list \<Rightarrow> nat
     \<Rightarrow> ('m, 'p) train_vars \<Rightarrow> ('m, 'p) session \<Rightarrow> (error \<times> ('m, 'p) session) + ('m, 'p) train_vars" where
  "end_epoch fw cfg val_data test_data epoch st s =
     (let s1 = s\<lparr>printed := printed s @ [EpochThroughputLine epoch]\<rparr>;
          (r, m2) = evaluate fw cfg (model s1) val_data;
          s2 = s1\<lparr>model := m2\<rparr>
      in case r of
           Inl e \<Rightarrow> Inl (e, s2)
         | Inr v \<Rightarrow>
            (case math_exp v of
               Inl e \<Rightarrow> Inl (e, s2)
             | Inr ppl \<Rightarrow>
            (let s3 = s2\<lparr>printed := printed s2 @ [ValidLine epoch v ppl]\<rparr>
             in if improved v (best_val st)
                then (let (r', m4) = evaluate fw cfg (model s3) test_data;
                          s4 = s3\<lparr>model := m4\<rparr>
                      in case r' of
                           Inl e \<Rightarrow> Inl (e, s4)
                         | Inr test_L \<Rightarrow>
                            (let s5 = s4\<lparr>files := files s4 @
                                        [(params_file cfg epoch, fw_params fw (model s4))]\<rparr>
                             in case math_exp test_L of
                                  Inl e \<Rightarrow> Inl (e, s5)
                                | Inr test_ppl \<Rightarrow>
                                    Inr \<lparr>ses = s5\<lparr>printed := printed s5 @ [TestLine test_L test_ppl]\<rparr>,
                                         best_val = Some v, lr = lr st, val_L = Some v\<rparr>))
                else (let lr' = lr st * 0.25
                      in Inr \<lparr>ses = s3\<lparr>learning_rate := lr',
                                         printed := printed s3 @ [LearningRateLine lr']\<rparr>,
                              best_val = best_val st, lr = lr', val_L = Some v\<rparr>))))"

definition train_epoch ::
  "('m, 'x, 'o, 'p) framework \<Rightarrow> config \<Rightarrow> ('x \<times> 'x) list \<Rightarrow> ('x \<times> 'x) list \<Rightarrow> ('x \<times> 'x) list \<Rightarrow> nat
     \<Rightarrow> ('m, 'p) train_vars \<Rightarrow> (error \<times> ('m, 'p) session) + ('m, 'p) train_vars" where
  "train_epoch fw cfg train_data val_data test_data epoch st =
     (case train_batches fw cfg epoch (length train_data) 0 train_data (begin_epoch fw cfg (ses st)) of
        Inl e \<Rightarrow> Inl e
      | Inr b \<Rightarrow> end_epoch fw cfg val_data test_data epoch st (bses b))"


text \<open>
  \<^verbatim>\<open>
  def train(model, train_data, val_data, test_data, epochs, lr):
      best_val = float("Inf")
      start_train_time = time.time()
      parameters = model.collect_params().values()
      for epoch in range(epochs):
          ...
      print('Total training throughput %.2f samples/s'%( ... ))
  \<close>
  The session \<open>s\<close> is the model object with the module-level trainer, files and output
  as they are when \<^verbatim>\<open>train\<close> is called. A run that stops with an error gives the error
  and the session as it was left.
\<close>

definition start_train :: "('m, 'p) session \<Rightarrow> real \<Rightarrow> ('m, 'p) train_vars" where
  "start_train s lr0 = \<lparr>ses = s, best_val = None, lr = lr0, val_L = None\<rparr>"




subsection \<open>The notebook's settings and a small instance of the framework\<close>

text \<open>
  The values the notebook gives its module-level names, and a small framework to run the
  functions on: the model is a pair (parameter, number of forward passes), its output is
  its parameter, a data or target tensor is its number of tokens, every token of a batch
  has the loss \<open>toy_loss\<close> of the output, and an optimizer step adds one to the parameter.
\<close>

definition notebook_config :: config where
  "notebook_config =
     \<lparr>num_gpus = 1, log_interval = 100, batch_size = 80, grad_clip = 0.2,
      model_name = ''standard_lstm_lm_200'', dataset_name = ''wikitext-2''\<rparr>"

definition toy_loss :: "nat \<Rightarrow> real" where
  "toy_loss out = (if out = 1 then 5 else if out = 2 then 5.2 else if out = 3 then 4.8 else 6)"

definition toy_framework :: "(nat \<times> nat, nat, nat, nat) framework" where
  "toy_framework =
     \<lparr>fw_predict = (\<lambda>m x h. ((fst m, h), (fst m, Suc (snd m)))),
      fw_record = (\<lambda>m x h. ((fst m, h), (fst m, Suc (snd m)))),
      fw_loss = (\<lambda>out y. replicate y (toy_loss out)),
      fw_begin_state = (\<lambda>m n f. PyList [Tensor (f [n]), Tensor (f [n])]),
      fw_split = (\<lambda>x n. if n dvd x then Some (replicate n (x div n)) else None),
      fw_size = (\<lambda>x. x),
      fw_step = (\<lambda>rate clip m shards. (Suc (fst m), snd m)),
      fw_params = fst\<rparr>"

definition toy_session :: "(nat \<times> nat, nat) session" where
  "toy_session = \<lparr>model = (0, 0), learning_rate = 20, files = [], printed = []\<rparr>"

text \<open>
  A framework whose model also keeps, in the order given, every learning rate its
  optimizer step was run under; everything else is the framework it is made from.
\<close>

definition recording :: "('m, 'x, 'o, 'p) framework \<Rightarrow> ('m \<times> real list, 'x, 'o, 'p) framework" where
  "recording fw =
     \<lparr>fw_predict = (\<lambda>m x h. (fst (fw_predict fw (fst m) x h), (snd (fw_predict fw (fst m) x h), snd m))),
      fw_record = (\<lambda>m x h. (fst (fw_record fw (fst m) x h), (snd (fw_record fw (fst m) x h), snd m))),
      fw_loss = fw_loss fw,
      fw_begin_state = (\<lambda>m. fw_begin_state fw (fst m)),
      fw_split = fw_split fw,
      fw_size = fw_size fw,
      fw_step = (\<lambda>rate clip m shards. (fw_step fw rate clip (fst m) shards, snd m @ [rate])),
      fw_params = (\<lambda>m. fw_params fw (fst m))\<rparr>"

definition rec_session :: "((nat \<times> nat) \<times> real list, nat) session" where
  "rec_session = \<lparr>model = ((0, 0), []), learning_rate = 20, files = [], printed = []\<rparr>"

definition toy_train :: "(nat \<times> nat) list" where
  "toy_train = [(1, 1)]"

definition toy_val :: "(nat \<times> nat) list" where
  "toy_val = [(2, 2)]"

definition toy_test :: "(nat \<times> nat) list" where
  "toy_test = [(1, 1)]"

text \<open>
  The variables of \<^verbatim>\<open>train\<close> after the first, second and third epoch of the run of the
  recording small framework from \<open>rec_session\<close> on these data.
\<close>

definition toy_vars1 :: "((nat \<times> nat) \<times> real list, nat) train_vars" where
  "toy_vars1 =
     \<lparr>ses = \<lparr>model = ((1, 3), [20]), learning_rate = 20,
             files = [(''standard_lstm_lm_200_wikitext-2-0.params'', 1)],
             printed = [EpochThroughputLine 0, ValidLine 0 5 (exp 5), TestLine 5 (exp 5)]\<rparr>,
      best_val = Some 5, lr = 20, val_L = Some 5\<rparr>"

definition toy_vars2 :: "((nat \<times> nat) \<times> real list, nat) train_vars" where
  "toy_vars2 =
     \<lparr>ses = \<lparr>model = ((2, 5), [20, 20]), learning_rate = 5,
             files = [(''standard_lstm_lm_200_wikitext-2-0.params'', 1)],
             printed = [EpochThroughputLine 0, ValidLine 0 5 (exp 5), TestLine 5 (exp 5),
                        EpochThroughputLine 1, ValidLine 1 5.2 (exp 5.2), LearningRateLine 5]\<rparr>,
      best_val = Some 5, lr = 5, val_L = Some 5.2\<rparr>"


text \<open>A hidden state with a tuple in it, its tensors linked into a graph.\<close>

definition toy_hidden :: "ndarray hidden" where
  "toy_hidden =
     PyTuple [Tensor \<lparr>nd_shape = [2], nd_values = [1, 2], nd_node = Some 7\<rparr>,
              PyList [Tensor \<lparr>nd_shape = [1], nd_values = [3], nd_node = Some 8\<rparr>]]"

section \<open>Theorems\<close>

declare slice_windows.simps [simp del]

declare str_nat.simps [simp del]

lemma length_batchify: "length (batchify tokens B) = length tokens div B"
  by (simp add: batchify_def Let_def)

lemma batchify_row_length: "row \<in> set (batchify tokens B) \<Longrightarrow> length row = B"
  by (auto simp: batchify_def Let_def)

lemma batchify_nth:
  "t < length tokens div B \<Longrightarrow> j < B \<Longrightarrow> batchify tokens B ! t ! j = stream tokens B j ! t"
  by (simp add: batchify_def Let_def)

lemma length_slice_windows:
  "0 < T \<Longrightarrow> length (slice_windows T rows) = (length rows - 1) div T"
proof (induction T rows rule: slice_windows.induct)
  case (1 T rows)
  show ?case
  proof (cases "T < length rows")
    case True
    have "(length rows - 1) div T = Suc ((length rows - 1 - T) div T)"
      using True "1.prems" by (simp add: le_div_geq)
    moreover have "length rows - T - 1 = length rows - 1 - T"
      by simp
    ultimately show ?thesis
      using True "1.prems" "1.IH" by (subst slice_windows.simps) simp
  next
    case False
    then show ?thesis
      using "1.prems" by (subst slice_windows.simps) simp
  qed
qed

lemma slice_windows_nth:
  "k < length (slice_windows T rows) \<Longrightarrow>
   slice_windows T rows ! k = (take T (drop (k * T) rows), take T (drop (k * T + 1) rows))"
proof (induction k arbitrary: rows)
  case 0
  then have "0 < T \<and> T < length rows"
    by (subst (asm) slice_windows.simps) (simp split: if_splits)
  then show ?case
    by (subst slice_windows.simps) (simp add: drop_Suc)
next
  case (Suc k)
  then have c: "0 < T \<and> T < length rows"
    by (subst (asm) slice_windows.simps) (simp split: if_splits)
  then have "k < length (slice_windows T (drop T rows))"
    using Suc.prems by (subst (asm) slice_windows.simps) simp
  then have "slice_windows T (drop T rows) ! k =
      (take T (drop (k * T) (drop T rows)), take T (drop (k * T + 1) (drop T rows)))"
    by (rule Suc.IH)
  then show ?case
    using c by (subst slice_windows.simps) (simp add: add.commute)
qed

lemma window_bound:
  assumes "0 < T" "k < length (slice_windows T rows)" "t < T"
  shows "k * T + t + 1 < length rows"
proof -
  have "Suc k \<le> (length rows - 1) div T"
    using assms by (simp add: length_slice_windows)
  then have "Suc k * T \<le> length rows - 1"
    using assms(1) by (simp add: less_eq_div_iff_mult_less_eq)
  then show ?thesis using assms by simp
qed

lemma length_stream: "j < B \<Longrightarrow> length (stream tokens B j) = length tokens div B"
proof -
  assume "j < B"
  then have "Suc j * (length tokens div B) \<le> B * (length tokens div B)"
    by (intro mult_le_mono1) simp
  also have "\<dots> \<le> length tokens"
    by simp
  finally show ?thesis
    by (simp add: stream_def Let_def)
qed

lemma stream_nth:
  "j < B \<Longrightarrow> r < length tokens div B \<Longrightarrow>
   stream tokens B j ! r = tokens ! (j * (length tokens div B) + r)"
proof -
  assume j: "j < B" and r: "r < length tokens div B"
  have "Suc j * (length tokens div B) \<le> B * (length tokens div B)"
    using j by (intro mult_le_mono1) simp
  also have "\<dots> \<le> length tokens"
    by simp
  finally have "j * (length tokens div B) + r < length tokens"
    using r by simp
  then show ?thesis
    using r by (simp add: stream_def Let_def)
qed

lemma in_set_tlD: "x \<in> set (tl xs) \<Longrightarrow> x \<in> set xs"
  by (cases xs) auto

lemma slice_windows_shapes:
  "(x, y) \<in> set (slice_windows T rows) \<Longrightarrow>
   length x = T \<and> length y = T \<and> set x \<subseteq> set rows \<and> set y \<subseteq> set rows"
proof (induction T rows rule: slice_windows.induct)
  case (1 T rows)
  from "1.prems" have c: "0 < T \<and> T < length rows"
    by (subst (asm) slice_windows.simps) (simp split: if_splits)
  from "1.prems" c have
    "(x, y) = (take T rows, take T (tl rows)) \<or> (x, y) \<in> set (slice_windows T (drop T rows))"
    by (subst (asm) slice_windows.simps) simp
  then show ?case
  proof
    assume "(x, y) = (take T rows, take T (tl rows))"
    then show ?thesis using c
      by (auto dest!: in_set_takeD dest: in_set_tlD)
  next
    assume "(x, y) \<in> set (slice_windows T (drop T rows))"
    then show ?thesis using "1.IH" c
      by (auto dest: in_set_dropD)
  qed
qed

subsection \<open>The batchifier: number and shape of the windows\<close>

text \<open>
  Claim C1, as stated: for every token sequence of length N, B >= 1 and T >= 1 the
  batchifier yields exactly floor((N // B - 1) / T) window pairs. It fails where
  N < B: one token in two streams gives no row and no window pair, while the formula
  gives floor(-1 / 1) = -1.
\<close>

theorem bptt_batchify_count_counterexample:
  "map_option (\<lambda>ws. int (length ws)) (bptt_batchify [7::nat] 1 2) = Some 0 \<and>
   spec_window_count (length [7::nat]) 2 1 = - 1"
  by (simp add: bptt_batchify_def batchify_def slice_windows.simps spec_window_count_def)

text \<open>
  Claim C1, amended: for every token sequence of length N, B >= 1 and T >= 1 the
  batchifier yields exactly max(0, floor((N // B - 1) / T)) window pairs, every input
  and every target of shape (T, B); and the corpus a b c d a b c d with B = 2 and T = 2
  yields exactly one window pair, of shapes (2, 2).
\<close>

theorem bptt_batchify_count:
  assumes "1 \<le> B" and "1 \<le> T"
  shows "(\<exists>ws. bptt_batchify tokens T B = Some ws \<and>
           int (length ws) = max 0 (spec_window_count (length tokens) B T) \<and>
           list_all (\<lambda>(x, y). has_shape x T B \<and> has_shape y T B) ws) \<and>
         bptt_batchify [a, b, c, d, a, b, c, d] 2 2 = Some [([[a, a], [b, b]], [[b, b], [c, c]])]"
proof -
  let ?rows = "batchify tokens B"
  let ?ws = "slice_windows T ?rows"
  have r: "bptt_batchify tokens T B = Some ?ws"
    using assms by (simp add: bptt_batchify_def)
  have "length ?ws = (length tokens div B - 1) div T"
    using assms by (simp add: length_slice_windows length_batchify)
  then have n: "int (length ?ws) = max 0 (spec_window_count (length tokens) B T)"
  proof (cases "length tokens div B")
    case 0
    assume "length ?ws = (length tokens div B - 1) div T"
    with 0 assms show ?thesis
      by (simp add: spec_window_count_def div_eq_minus1)
  next
    case (Suc m)
    assume "length ?ws = (length tokens div B - 1) div T"
    with Suc show ?thesis
      by (simp add: spec_window_count_def flip: zdiv_int)
  qed
  have s: "list_all (\<lambda>(x, y). has_shape x T B \<and> has_shape y T B) ?ws"
    unfolding list_all_iff has_shape_def
    using slice_windows_shapes batchify_row_length by fastforce
  have e: "bptt_batchify [a, b, c, d, a, b, c, d] 2 2 = Some [([[a, a], [b, b]], [[b, b], [c, c]])]"
    by (simp add: bptt_batchify_def batchify_def stream_def slice_windows.simps upt_rec)
  from r n s e show ?thesis by blast
qed

theorem bptt_batchify_count_witness:
  "(1::nat) \<le> 2 \<and> (1::nat) \<le> 2 \<and>
   bptt_batchify [0, 1, 2, 3, 0, 1, 2, 3 :: nat] 2 2 = Some [([[0, 0], [1, 1]], [[1, 1], [2, 2]])] \<and>
   int (length [([[0, 0], [1, 1]], [[1, 1], [2, 2::nat]])]) =
     max 0 (spec_window_count (length [0, 1, 2, 3, 0, 1, 2, 3 :: nat]) 2 2) \<and>
   has_shape [[0, 0], [1, 1::nat]] 2 2 \<and> has_shape [[1, 1], [2, 2::nat]] 2 2"
  using bptt_batchify_count [of 2 2 "[0, 1, 2, 3, 0, 1, 2, 3 :: nat]" "0::nat" "1::nat" "2::nat" "3::nat"]
  by (auto simp: has_shape_def spec_window_count_def)

subsection \<open>The batchifier: the target is the input one step on\<close>

text \<open>
  Claim C4: in every window pair the batchifier produces, at every time index \<open>t\<close> of
  the window and in every batch stream \<open>j\<close>, the input holds the token at a position of
  stream \<open>j\<close> and the target holds the token one position on in the same stream, which is
  the next token of the original sequence; inside the window, target row \<open>t\<close> is input
  row \<open>t + 1\<close>.
\<close>

theorem bptt_batchify_shift:
  assumes "bptt_batchify tokens T B = Some ws" and "k < length ws" and "t < T" and "j < B"
  shows "k * T + t + 1 < length (stream tokens B j) \<and>
         fst (ws ! k) ! t ! j = stream tokens B j ! (k * T + t) \<and>
         snd (ws ! k) ! t ! j = stream tokens B j ! (k * T + t + 1) \<and>
         fst (ws ! k) ! t ! j = tokens ! (j * (length tokens div B) + (k * T + t)) \<and>
         snd (ws ! k) ! t ! j = tokens ! (j * (length tokens div B) + (k * T + t) + 1) \<and>
         (t + 1 < T \<longrightarrow> snd (ws ! k) ! t = fst (ws ! k) ! (t + 1))"
proof -
  let ?rows = "batchify tokens B"
  from assms(1) have T: "0 < T" and ws: "ws = slice_windows T ?rows"
    by (auto simp: bptt_batchify_def split: if_splits)
  have b: "k * T + t + 1 < length ?rows"
    using T assms(2,3) unfolding ws by (rule window_bound)
  then have b': "k * T + t + 1 < length tokens div B"
    by (simp add: length_batchify)
  have w: "ws ! k = (take T (drop (k * T) ?rows), take T (drop (k * T + 1) ?rows))"
    using assms(2) unfolding ws by (rule slice_windows_nth)
  have i: "fst (ws ! k) ! t = ?rows ! (k * T + t)"
    using assms(3) b by (simp add: w)
  have o: "snd (ws ! k) ! t = ?rows ! (k * T + t + 1)"
    using assms(3) b by (simp add: w)
  have 1: "k * T + t + 1 < length (stream tokens B j)"
    using b' assms(4) by (simp add: length_stream)
  have 2: "fst (ws ! k) ! t ! j = stream tokens B j ! (k * T + t)"
    using b' assms(4) by (simp add: i batchify_nth)
  have 3: "snd (ws ! k) ! t ! j = stream tokens B j ! (k * T + t + 1)"
    using b' assms(4) by (simp add: o batchify_nth)
  have 4: "t + 1 < T \<longrightarrow> snd (ws ! k) ! t = fst (ws ! k) ! (t + 1)"
    using b assms(3) by (auto simp: w)
  have 5: "stream tokens B j ! (k * T + t) = tokens ! (j * (length tokens div B) + (k * T + t))"
    using b' assms(4) by (simp add: stream_nth)
  have 6: "stream tokens B j ! (k * T + t + 1) = tokens ! (j * (length tokens div B) + (k * T + t) + 1)"
    using b' assms(4) by (simp add: stream_nth)
  from 1 2 3 4 5 6 show ?thesis by simp
qed

theorem bptt_batchify_shift_witness:
  "bptt_batchify [10, 11, 12, 13, 14, 15, 16, 17 :: nat] 2 2 =
     Some [([[10, 14], [11, 15]], [[11, 15], [12, 16]])] \<and>
   stream [10, 11, 12, 13, 14, 15, 16, 17 :: nat] 2 1 = [14, 15, 16, 17] \<and>
   fst ([([[10, 14], [11, 15]], [[11, 15], [12, 16 :: nat]])] ! 0) ! 0 ! 1 =
     stream [10, 11, 12, 13, 14, 15, 16, 17 :: nat] 2 1 ! (0 * 2 + 0) \<and>
   snd ([([[10, 14], [11, 15]], [[11, 15], [12, 16 :: nat]])] ! 0) ! 0 ! 1 =
     stream [10, 11, 12, 13, 14, 15, 16, 17 :: nat] 2 1 ! (0 * 2 + 0 + 1) \<and>
   snd ([([[10, 14], [11, 15]], [[11, 15], [12, 16 :: nat]])] ! 0) ! 0 ! 1 =
     [10, 11, 12, 13, 14, 15, 16, 17 :: nat] ! (1 * (length [10, 11, 12, 13, 14, 15, 16, 17 :: nat] div 2) + (0 * 2 + 0) + 1) \<and>
   snd ([([[10, 14], [11, 15]], [[11, 15], [12, 16 :: nat]])] ! 0) ! 0 =
     fst ([([[10, 14], [11, 15]], [[11, 15], [12, 16 :: nat]])] ! 0) ! (0 + 1)"
proof -
  have b: "bptt_batchify [10, 11, 12, 13, 14, 15, 16, 17 :: nat] 2 2 =
             Some [([[10, 14], [11, 15]], [[11, 15], [12, 16]])]"
    by (simp add: bptt_batchify_def batchify_def stream_def slice_windows.simps upt_rec)
  have s: "stream [10, 11, 12, 13, 14, 15, 16, 17 :: nat] 2 1 = [14, 15, 16, 17]"
    by (simp add: stream_def)
  from bptt_batchify_shift [OF b, of 0 0 1] b s show ?thesis
    by simp
qed

subsection \<open>The batchifier: fewer tokens than streams\<close>

text \<open>
  Claim C9: for every token sequence of length N and batch size B with N < B (and a
  window length T >= 1), the batchifier yields nothing: the sequence of window pairs is
  empty.
\<close>

theorem bptt_batchify_small:
  assumes "length tokens < B" and "1 \<le> T"
  shows "bptt_batchify tokens T B = Some []"
  using assms by (simp add: bptt_batchify_def batchify_def slice_windows.simps)

theorem bptt_batchify_small_witness:
  "length [7, 8 :: nat] < 3 \<and> (1::nat) \<le> 35 \<and> bptt_batchify [7, 8 :: nat] 35 3 = Some []"
  using bptt_batchify_small [of "[7, 8 :: nat]" 3 35] by simp

subsection \<open>Detaching a hidden state\<close>

lemma hidden_values_detach: "hidden_values (detach h) = hidden_values h"
  by (induction h) (simp_all add: nd_detach_def cong: map_cong)

lemma tensors_detach: "tensors (detach h) = map nd_detach (tensors h)"
  by (induction h) (simp_all add: map_concat comp_def cong: map_cong)

lemma no_tuple_detach: "no_tuple (detach h)"
  by (induction h) (simp_all add: list_all_iff)

lemma detach_as_lists: "detach h = as_lists (map_hidden nd_detach h)"
  by (induction h) (simp_all cong: map_cong)

text \<open>
  Claim C5: for every hidden state, however its tuples and lists are nested, \<^verbatim>\<open>detach\<close>
  returns a state with exactly the numeric values (and shapes) of the input, none of
  its tensors linked into the gradient graph; so whatever a forward pass computes from
  the numeric values of the state alone is the same with and without detachment.
\<close>

theorem detach_preserves_values:
  "hidden_values (detach h) = hidden_values h \<and>
   list_all (\<lambda>a. nd_node a = None) (tensors (detach h)) \<and>
   ((\<forall>h1 h2. hidden_values h1 = hidden_values h2 \<longrightarrow> forward h1 = forward h2)
      \<longrightarrow> forward (detach h) = forward h)"
proof -
  have v: "hidden_values (detach h) = hidden_values h"
    by (rule hidden_values_detach)
  have n: "list_all (\<lambda>a. nd_node a = None) (tensors (detach h))"
    by (simp add: tensors_detach list_all_iff nd_detach_def)
  from v n show ?thesis by blast
qed

theorem detach_preserves_values_witness:
  "hidden_values (detach toy_hidden) = VNode [VLeaf [2] [1, 2], VNode [VLeaf [1] [3]]] \<and>
   hidden_values toy_hidden = VNode [VLeaf [2] [1, 2], VNode [VLeaf [1] [3]]] \<and>
   map nd_node (tensors toy_hidden) = [Some 7, Some 8] \<and>
   list_all (\<lambda>a. nd_node a = None) (tensors (detach toy_hidden))"
  using detach_preserves_values [of toy_hidden hidden_values]
  by (simp add: toy_hidden_def nd_detach_def)

text \<open>
  Claim C10: \<^verbatim>\<open>detach\<close> does not keep the container types: the result is the input with
  every tensor detached and every tuple or list, at any depth, turned into a list in the
  same place, so no tuple is left in it; the numeric values are those of the input.
\<close>

theorem detach_gives_lists:
  "no_tuple (detach h) \<and>
   detach h = as_lists (map_hidden nd_detach h) \<and>
   detach (PyTuple xs) = PyList (map detach xs) \<and>
   hidden_values (detach h) = hidden_values h"
  using no_tuple_detach [of h] detach_as_lists [of h] hidden_values_detach [of h] by simp

theorem detach_gives_lists_witness:
  "\<not> no_tuple toy_hidden \<and> no_tuple (detach toy_hidden) \<and>
   detach toy_hidden =
     PyList [Tensor \<lparr>nd_shape = [2], nd_values = [1, 2], nd_node = None\<rparr>,
             PyList [Tensor \<lparr>nd_shape = [1], nd_values = [3], nd_node = None\<rparr>]] \<and>
   hidden_values (detach toy_hidden) = hidden_values toy_hidden"
  using detach_gives_lists [of toy_hidden "[]"]
  by (simp add: toy_hidden_def nd_detach_def)

subsection \<open>Evaluation\<close>

lemma evaluate_loop_total:
  "fst (evaluate_loop fw ds (t, n, h, m)) = t + sum_list (map sum_list (batch_losses fw m h ds))"
proof (induction ds arbitrary: t n h m)
  case Nil
  show ?case by simp
next
  case (Cons b ds)
  obtain data target where b: "b = (data, target)" by (cases b)
  obtain out h' m' where p: "fw_predict fw m data h = ((out, h'), m')"
    by (metis surj_pair)
  show ?case
    by (simp add: b p Cons.IH Let_def)
qed

lemma evaluate_loop_ntotal:
  "fst (snd (evaluate_loop fw ds (t, n, h, m))) = n + sum_list (map length (batch_losses fw m h ds))"
proof (induction ds arbitrary: t n h m)
  case Nil
  show ?case by simp
next
  case (Cons b ds)
  obtain data target where b: "b = (data, target)" by (cases b)
  obtain out h' m' where p: "fw_predict fw m data h = ((out, h'), m')"
    by (metis surj_pair)
  show ?case
    by (simp add: b p Cons.IH Let_def)
qed

lemma evaluate_loop_params:
  assumes "\<And>m x h. fw_params fw (snd (fw_predict fw m x h)) = fw_params fw m"
  shows "fw_params fw (snd (snd (snd (evaluate_loop fw ds (t, n, h, m))))) = fw_params fw m"
proof (induction ds arbitrary: t n h m)
  case Nil
  show ?case by simp
next
  case (Cons b ds)
  obtain data target where b: "b = (data, target)" by (cases b)
  obtain out h' m' where p: "fw_predict fw m data h = ((out, h'), m')"
    by (metis surj_pair)
  have "fw_params fw m' = fw_params fw m"
    using assms [of m data h] by (simp add: p)
  then show ?case
    by (simp add: b p Cons.IH Let_def)
qed

text \<open>
  Claim C6, as stated: for every batched dataset \<^verbatim>\<open>evaluate\<close> returns the summed losses
  divided by the number of tokens. It fails on the dataset with no batch (what the
  batchifier yields for fewer tokens than streams): \<^verbatim>\<open>0.0 / 0\<close> raises
  \<^verbatim>\<open>ZeroDivisionError\<close> and nothing is returned.
\<close>

theorem evaluate_empty_counterexample:
  "fst (evaluate toy_framework notebook_config (0, 0) []) = Inl ZeroDivisionError"
  by (simp add: evaluate_def)

text \<open>
  Claim C6, amended: for every batched dataset with at least one token, \<^verbatim>\<open>evaluate\<close>
  returns the sum over all batches of the summed per-token losses divided by the total
  number of tokens, the per-token losses \<open>Ls\<close> being those of forward passes whose hidden
  state starts at \<^verbatim>\<open>begin_state(batch_size, func=mx.nd.zeros)\<close>, an array of zeros for
  every shape asked for, and is carried from each batch to the next.
\<close>

theorem evaluate_mean:
  assumes "Ls = batch_losses fw m (fw_begin_state fw m (batch_size cfg) nd_zeros) data_source"
      and "0 < sum_list (map length Ls)"
  shows "fst (evaluate fw cfg m data_source) =
           Inr (sum_list (map sum_list Ls) / real (sum_list (map length Ls))) \<and>
         list_all (\<lambda>v. v = 0) (nd_values (nd_zeros shape))"
proof -
  let ?h = "fw_begin_state fw m (batch_size cfg) nd_zeros"
  obtain t n h' m' where l: "evaluate_loop fw data_source (0, 0, ?h, m) = (t, n, h', m')"
    by (metis prod_cases4)
  have t: "t = sum_list (map sum_list Ls)"
    using evaluate_loop_total [of fw data_source 0 0 ?h m] by (simp add: l assms(1))
  have n: "n = sum_list (map length Ls)"
    using evaluate_loop_ntotal [of fw data_source 0 0 ?h m] by (simp add: l assms(1))
  have "0 < n"
    using assms(2) unfolding n .
  then have "fst (evaluate fw cfg m data_source) = Inr (t / real n)"
    by (simp add: evaluate_def l)
  then show ?thesis
    by (simp add: t n nd_zeros_def list_all_iff)
qed

theorem evaluate_mean_witness:
  "batch_losses (toy_framework\<lparr>fw_loss := (\<lambda>out y. map real [1..<Suc y])\<rparr>) (1, 0)
     (fw_begin_state (toy_framework\<lparr>fw_loss := (\<lambda>out y. map real [1..<Suc y])\<rparr>) (1, 0)
        (batch_size notebook_config) nd_zeros) [(2, 2), (3, 3)] = [[1, 2], [1, 2, 3]] \<and>
   0 < sum_list (map length [[1, 2], [1, 2, 3 :: real]]) \<and>
   fst (evaluate (toy_framework\<lparr>fw_loss := (\<lambda>out y. map real [1..<Suc y])\<rparr>) notebook_config
          (1, 0) [(2, 2), (3, 3)]) = Inr (9 / 5) \<and>
   nd_values (nd_zeros [2]) = [0, 0]"
proof -
  let ?fw = "toy_framework\<lparr>fw_loss := (\<lambda>out y. map real [1..<Suc y])\<rparr>"
  have b: "batch_losses ?fw (1, 0) (fw_begin_state ?fw (1, 0) (batch_size notebook_config) nd_zeros)
             [(2, 2), (3, 3)] = [[1, 2], [1, 2, 3]]"
    by (simp add: toy_framework_def upt_rec)
  have p: "0 < sum_list (map length [[1, 2], [1, 2, 3 :: real]])"
    by simp
  have z: "nd_values (nd_zeros [2]) = [0, 0]"
    by (simp add: nd_zeros_def numeral_2_eq_2)
  from evaluate_mean [OF b [symmetric] p, of "[2]"] b p z show ?thesis
    by simp
qed

text \<open>
  Claim C7: every call to \<^verbatim>\<open>evaluate\<close> leaves the model parameters unchanged. The only
  thing \<^verbatim>\<open>evaluate\<close> does to the model is to call it outside \<^verbatim>\<open>autograd.record()\<close>; given
  that such a forward pass of the framework changes no parameter, the parameters after
  the call, whether it returns or raises, are those before it.
\<close>

theorem evaluate_keeps_params:
  assumes "\<forall>m x h. fw_params fw (snd (fw_predict fw m x h)) = fw_params fw m"
  shows "fw_params fw (snd (evaluate fw cfg m data_source)) = fw_params fw m"
proof -
  let ?h = "fw_begin_state fw m (batch_size cfg) nd_zeros"
  obtain t n h' m' where l: "evaluate_loop fw data_source (0, 0, ?h, m) = (t, n, h', m')"
    by (metis prod_cases4)
  have "fw_params fw m' = fw_params fw m"
    using evaluate_loop_params [of fw data_source 0 0 ?h m] assms by (simp add: l)
  then show ?thesis
    by (simp add: evaluate_def l)
qed

theorem evaluate_keeps_params_witness:
  "(\<forall>m x h. fw_params toy_framework (snd (fw_predict toy_framework m x h)) = fw_params toy_framework m) \<and>
   evaluate toy_framework notebook_config (1, 0) [(2, 2), (3, 3)] = (Inr 5, (1, 2)) \<and>
   fw_params toy_framework (snd (evaluate toy_framework notebook_config (1, 0) [(2, 2), (3, 3)])) =
     fw_params toy_framework (1, 0)"
proof -
  have a: "\<forall>m x h. fw_params toy_framework (snd (fw_predict toy_framework m x h)) =
             fw_params toy_framework m"
    by (simp add: toy_framework_def)
  have e: "evaluate toy_framework notebook_config (1, 0) [(2, 2), (3, 3)] = (Inr 5, (1, 2))"
    by (simp add: evaluate_def toy_framework_def toy_loss_def sum_list_replicate)
  from evaluate_keeps_params [OF a, of notebook_config "(1, 0)" "[(2, 2), (3, 3)]"] a e
  show ?thesis by simp
qed

subsection \<open>The training loop\<close>

text \<open>The exponential of a small loss is a float; that of a large one is not.\<close>

lemma exp_small: "x \<le> 6 \<Longrightarrow> exp x \<le> float_max"
proof -
  assume "x \<le> 6"
  then have "exp x \<le> exp (real 6 * 1)"
    by simp
  also have "\<dots> = exp 1 ^ 6"
    by (rule exp_of_nat_mult)
  also have "\<dots> \<le> 3 ^ 6"
    by (intro power_mono exp_le) simp
  also have "\<dots> \<le> float_max"
    by (simp add: float_max_def)
  finally show ?thesis .
qed

lemma math_exp_small: "x \<le> 6 \<Longrightarrow> math_exp x = Inr (exp x)"
  by (simp add: math_exp_def exp_small)

lemma exp_large: "2000 \<le> x \<Longrightarrow> \<not> exp x \<le> float_max"
proof -
  assume x: "2000 \<le> x"
  have "float_max < 2 ^ 2000"
    by (simp add: float_max_def)
  also have "\<dots> \<le> exp 1 ^ 2000"
    by (intro power_mono) (use exp_ge_add_one_self [of 1] in simp_all)
  also have "\<dots> = exp (real 2000 * 1)"
    by (rule exp_of_nat_mult [symmetric])
  also have "\<dots> \<le> exp x"
    using x by simp
  finally show ?thesis by simp
qed

lemma math_exp_large: "2000 \<le> x \<Longrightarrow> math_exp x = Inl OverflowError"
  by (simp add: math_exp_def exp_large)

text \<open>\<open>str_nat\<close> writes the decimal numeral of a number, with no leading zero.\<close>

lemma digit_value_digit_char:
  "d < 10 \<Longrightarrow> (of_char (digit_char d) :: nat) = 48 + d"
proof -
  assume "d < 10"
  then have "d \<in> {0, 1, 2, 3, 4, 5, 6, 7, 8, 9}"
    by auto
  then show ?thesis
    by (auto simp: digit_char_def)
qed

lemma decimal_value_snoc:
  "decimal_value (cs @ [c]) = 10 * decimal_value cs + ((of_char c :: nat) - 48)"
  by (simp add: decimal_value_def)

lemma decimal_value_str_nat: "decimal_value (str_nat n) = n"
proof (induction n rule: str_nat.induct)
  case (1 n)
  show ?case
  proof (cases "n < 10")
    case True
    then show ?thesis
      by (subst str_nat.simps) (simp add: decimal_value_def digit_value_digit_char)
  next
    case False
    then have "decimal_value (str_nat (n div 10)) = n div 10"
      using "1.IH" by simp
    then show ?thesis
      using False
      by (subst str_nat.simps) (simp add: decimal_value_snoc digit_value_digit_char)
  qed
qed

lemma digits_str_nat: "list_all is_digit (str_nat n)"
proof (induction n rule: str_nat.induct)
  case (1 n)
  show ?case
  proof (cases "n < 10")
    case True
    then show ?thesis
      by (subst str_nat.simps) (simp add: is_digit_def digit_value_digit_char)
  next
    case False
    then have "list_all is_digit (str_nat (n div 10))"
      using "1.IH" by simp
    then show ?thesis
      using False
      by (subst str_nat.simps) (simp add: is_digit_def digit_value_digit_char)
  qed
qed

lemma str_nat_nonempty: "str_nat n \<noteq> []"
  by (subst str_nat.simps) simp

lemma hd_str_nat: "0 < n \<Longrightarrow> hd (str_nat n) \<noteq> CHR ''0''"
proof (induction n rule: str_nat.induct)
  case (1 n)
  show ?case
  proof (cases "n < 10")
    case True
    then have "n \<in> {1, 2, 3, 4, 5, 6, 7, 8, 9}"
      using "1.prems" by auto
    then show ?thesis
      by (subst str_nat.simps) (auto simp: digit_char_def)
  next
    case False
    then have "hd (str_nat (n div 10)) \<noteq> CHR ''0''"
      using "1.IH" by simp
    then show ?thesis
      using False str_nat_nonempty [of "n div 10"]
      by (subst str_nat.simps) simp
  qed
qed

lemma train_batch_frame:
  "train_batch fw cfg epoch n i batch st = Inr b \<Longrightarrow>
   learning_rate (bses b) = learning_rate (bses st) \<and> files (bses b) = files (bses st)"
  by (auto simp: train_batch_def Let_def split: prod.splits option.splits if_splits sum.splits)

lemma train_batches_frame:
  "train_batches fw cfg epoch n i batches st = Inr b \<Longrightarrow>
   learning_rate (bses b) = learning_rate (bses st) \<and> files (bses b) = files (bses st)"
proof (induction batches arbitrary: i st)
  case Nil
  then show ?case by simp
next
  case (Cons batch rest)
  from Cons.prems obtain st' where
    1: "train_batch fw cfg epoch n i batch st = Inr st'" and
    2: "train_batches fw cfg epoch n (Suc i) rest st' = Inr b"
    by (auto split: sum.splits)
  show ?case
    using train_batch_frame [OF 1] Cons.IH [OF 2] by simp
qed






text \<open>What the end of an epoch gives, case by case.\<close>

lemma end_epoch_cases:
  assumes "end_epoch fw cfg val_data test_data epoch st s = Inr st'"
  shows "\<exists>v m2. evaluate fw cfg (model s) val_data = (Inr v, m2) \<and> exp v \<le> float_max \<and>
           val_L st' = Some v \<and>
           (if improved v (best_val st)
            then (\<exists>test_L m4. evaluate fw cfg m2 test_data = (Inr test_L, m4) \<and>
                    exp test_L \<le> float_max \<and>
                    st' = \<lparr>ses = \<lparr>model = m4, learning_rate = learning_rate s,
                                   files = files s @ [(params_file cfg epoch, fw_params fw m4)],
                                   printed = printed s @
                                     [EpochThroughputLine epoch, ValidLine epoch v (exp v),
                                      TestLine test_L (exp test_L)]\<rparr>,
                           best_val = Some v, lr = lr st, val_L = Some v\<rparr>)
            else st' = \<lparr>ses = \<lparr>model = m2, learning_rate = lr st * 0.25, files = files s,
                                 printed = printed s @
                                   [EpochThroughputLine epoch, ValidLine epoch v (exp v),
                                    LearningRateLine (lr st * 0.25)]\<rparr>,
                         best_val = best_val st, lr = lr st * 0.25, val_L = Some v\<rparr>)"
proof -
  obtain r m2 where v: "evaluate fw cfg (model s) val_data = (r, m2)"
    by (metis surj_pair)
  from assms v obtain x where r: "r = Inr x"
    by (cases r) (auto simp: end_epoch_def Let_def)
  from assms v r have e: "exp x \<le> float_max"
    by (auto simp: end_epoch_def Let_def math_exp_def split: if_splits)
  show ?thesis
  proof (cases "improved x (best_val st)")
    case False
    with assms v r e show ?thesis
      by (auto simp: end_epoch_def Let_def math_exp_def)
  next
    case True
    obtain r' m4 where t: "evaluate fw cfg m2 test_data = (r', m4)"
      by (metis surj_pair)
    from assms v r e True t obtain y where r': "r' = Inr y"
      by (cases r') (auto simp: end_epoch_def Let_def math_exp_def)
    from assms v r e True t r' have e': "exp y \<le> float_max"
      by (auto simp: end_epoch_def Let_def math_exp_def split: if_splits)
    from assms v r e True t r' e' show ?thesis
      by (auto simp: end_epoch_def Let_def math_exp_def)
  qed
qed

lemma end_epoch_improved:
  assumes "evaluate fw cfg (model s) val_data = (Inr v, m2)" and "exp v \<le> float_max"
      and "improved v (best_val st)"
      and "evaluate fw cfg m2 test_data = (Inr test_L, m4)" and "exp test_L \<le> float_max"
  shows "end_epoch fw cfg val_data test_data epoch st s =
           Inr \<lparr>ses = \<lparr>model = m4, learning_rate = learning_rate s,
                        files = files s @ [(params_file cfg epoch, fw_params fw m4)],
                        printed = printed s @ [EpochThroughputLine epoch, ValidLine epoch v (exp v),
                                               TestLine test_L (exp test_L)]\<rparr>,
                best_val = Some v, lr = lr st, val_L = Some v\<rparr>"
  using assms by (simp add: end_epoch_def Let_def math_exp_def)

lemma end_epoch_not_improved:
  assumes "evaluate fw cfg (model s) val_data = (Inr v, m2)" and "exp v \<le> float_max"
      and "\<not> improved v (best_val st)"
  shows "end_epoch fw cfg val_data test_data epoch st s =
           Inr \<lparr>ses = \<lparr>model = m2, learning_rate = lr st * 0.25,
                        files = files s,
                        printed = printed s @ [EpochThroughputLine epoch, ValidLine epoch v (exp v),
                                               LearningRateLine (lr st * 0.25)]\<rparr>,
                best_val = best_val st, lr = lr st * 0.25, val_L = Some v\<rparr>"
  using assms by (simp add: end_epoch_def Let_def math_exp_def)









lemma toy_epoch1:
  "train_epoch (recording toy_framework) notebook_config toy_train toy_val toy_test 1 toy_vars1
     = Inr toy_vars2"
  by (simp add: train_epoch_def toy_train_def toy_val_def toy_test_def begin_epoch_def train_batch_def
      recording_def toy_framework_def notebook_config_def context_count_def toy_loss_def Let_def
      end_epoch_def evaluate_def improved_def params_file_def str_nat.simps [of 1] digit_char_def
      toy_vars1_def toy_vars2_def sum_list_replicate math_exp_small)






text \<open>
  An epoch runs to its end when its batches do, the validation evaluation returns a
  loss whose exponential is a float and, if that loss improved, so does the test
  evaluation.
\<close>

lemma train_epoch_returns:
  assumes "train_batches fw cfg epoch (length train_data) 0 train_data (begin_epoch fw cfg (ses st)) = Inr b"
      and "evaluate fw cfg (model (bses b)) val_data = (Inr v, m2)" and "exp v \<le> float_max"
      and "evaluate fw cfg m2 test_data = (r, m4)"
      and "improved v (best_val st) \<Longrightarrow> r = Inr test_L \<and> exp test_L \<le> float_max"
  shows "\<exists>st'. train_epoch fw cfg train_data val_data test_data epoch st = Inr st'"
proof (cases "improved v (best_val st)")
  case True
  then have "evaluate fw cfg m2 test_data = (Inr test_L, m4)" and "exp test_L \<le> float_max"
    using assms(4,5) by simp_all
  from end_epoch_improved [OF assms(2,3) True this, of epoch] show ?thesis
    using assms(1) by (simp add: train_epoch_def)
next
  case False
  from end_epoch_not_improved [OF assms(2,3) False, of test_data epoch] show ?thesis
    using assms(1) by (simp add: train_epoch_def)
qed

text \<open>
  Claim C3, as stated: in every epoch, after the validation evaluation, either the
  parameters are saved and the test split evaluated, or the learning rate is multiplied
  by 0.25. It fails in an epoch that does not run to its end: with a validation loss that
  improved and a test split of no batch, \<^verbatim>\<open>evaluate(model, test_data, ...)\<close> raises
  \<^verbatim>\<open>ZeroDivisionError\<close> before \<^verbatim>\<open>save_params\<close>, so no file is written and the learning rate
  is not changed either. (\<^verbatim>\<open>math.exp\<close> of a loss beyond the float range stops an epoch
  in the same way.)
\<close>

theorem train_epoch_actions_counterexample:
  "improved 5 (best_val (start_train toy_session 20)) \<and>
   train_epoch toy_framework notebook_config toy_train toy_val [] 0 (start_train toy_session 20) =
     Inl (ZeroDivisionError,
          \<lparr>model = (1, 2), learning_rate = 20, files = [],
           printed = [EpochThroughputLine 0, ValidLine 0 5 (exp 5)]\<rparr>)"
  by (simp add: train_epoch_def toy_train_def toy_val_def begin_epoch_def train_batch_def
      toy_framework_def notebook_config_def context_count_def toy_session_def toy_loss_def Let_def
      start_train_def end_epoch_def evaluate_def improved_def sum_list_replicate math_exp_small)

text \<open>
  Claim C3, amended: in every epoch of \<^verbatim>\<open>train\<close> that runs to its end, after the validation
  evaluation exactly one of two things is done. If the validation loss \<open>v\<close> improved on
  the best value so far, the test split is evaluated and the parameters are saved in a
  file named by the model name, \<open>_\<close>, the dataset name, \<open>-\<close>, the decimal numeral of the
  epoch number and \<open>.params\<close>, and the learning rate stays; otherwise the learning rate
  is multiplied by 0.25 and set in the trainer, no file is written and the test split is
  not evaluated (the model is as the validation left it and no test line is printed).
\<close>

theorem train_epoch_actions:
  assumes "train_epoch fw cfg train_data val_data test_data epoch st = Inr st'"
  shows "(\<exists>b v m2.
            train_batches fw cfg epoch (length train_data) 0 train_data (begin_epoch fw cfg (ses st))
              = Inr b \<and>
            evaluate fw cfg (model (bses b)) val_data = (Inr v, m2) \<and>
            val_L st' = Some v \<and>
            (if improved v (best_val st)
             then (\<exists>test_L m4.
                     evaluate fw cfg m2 test_data = (Inr test_L, m4) \<and>
                     files (ses st') = files (ses st) @
                       [(model_name cfg @ ''_'' @ dataset_name cfg @ ''-'' @ str_nat epoch @ ''.params'',
                         fw_params fw m4)] \<and>
                     printed (ses st') = printed (bses b) @
                       [EpochThroughputLine epoch, ValidLine epoch v (exp v),
                        TestLine test_L (exp test_L)] \<and>
                     model (ses st') = m4) \<and>
                  learning_rate (ses st') = learning_rate (ses st) \<and> lr st' = lr st \<and>
                  best_val st' = Some v
             else lr st' = lr st * 0.25 \<and> learning_rate (ses st') = lr st * 0.25 \<and>
                  files (ses st') = files (ses st) \<and>
                  printed (ses st') = printed (bses b) @
                    [EpochThroughputLine epoch, ValidLine epoch v (exp v),
                     LearningRateLine (lr st * 0.25)] \<and>
                  model (ses st') = m2 \<and>
                  best_val st' = best_val st)) \<and>
         decimal_value (str_nat epoch) = epoch \<and> list_all is_digit (str_nat epoch) \<and>
         (0 < epoch \<longrightarrow> hd (str_nat epoch) \<noteq> CHR ''0'')"
proof -
  from assms obtain b where
    b: "train_batches fw cfg epoch (length train_data) 0 train_data (begin_epoch fw cfg (ses st)) = Inr b"
    and e: "end_epoch fw cfg val_data test_data epoch st (bses b) = Inr st'"
    by (auto simp: train_epoch_def split: sum.splits)
  have f: "learning_rate (bses b) = learning_rate (ses st) \<and> files (bses b) = files (ses st)"
    using train_batches_frame [OF b] by (simp add: begin_epoch_def)
  from end_epoch_cases [OF e] obtain v m2 where
    v: "evaluate fw cfg (model (bses b)) val_data = (Inr v, m2)" and
    l: "val_L st' = Some v" and
    c: "if improved v (best_val st)
        then (\<exists>test_L m4. evaluate fw cfg m2 test_data = (Inr test_L, m4) \<and>
                exp test_L \<le> float_max \<and>
                st' = \<lparr>ses = \<lparr>model = m4, learning_rate = learning_rate (bses b),
                               files = files (bses b) @ [(params_file cfg epoch, fw_params fw m4)],
                               printed = printed (bses b) @
                                 [EpochThroughputLine epoch, ValidLine epoch v (exp v),
                                  TestLine test_L (exp test_L)]\<rparr>,
                       best_val = Some v, lr = lr st, val_L = Some v\<rparr>)
        else st' = \<lparr>ses = \<lparr>model = m2, learning_rate = lr st * 0.25, files = files (bses b),
                             printed = printed (bses b) @
                               [EpochThroughputLine epoch, ValidLine epoch v (exp v),
                                LearningRateLine (lr st * 0.25)]\<rparr>,
                     best_val = best_val st, lr = lr st * 0.25, val_L = Some v\<rparr>"
    by blast
  have main: "if improved v (best_val st)
             then (\<exists>test_L m4.
                     evaluate fw cfg m2 test_data = (Inr test_L, m4) \<and>
                     files (ses st') = files (ses st) @
                       [(model_name cfg @ ''_'' @ dataset_name cfg @ ''-'' @ str_nat epoch @ ''.params'',
                         fw_params fw m4)] \<and>
                     printed (ses st') = printed (bses b) @
                       [EpochThroughputLine epoch, ValidLine epoch v (exp v),
                        TestLine test_L (exp test_L)] \<and>
                     model (ses st') = m4) \<and>
                  learning_rate (ses st') = learning_rate (ses st) \<and> lr st' = lr st \<and>
                  best_val st' = Some v
             else lr st' = lr st * 0.25 \<and> learning_rate (ses st') = lr st * 0.25 \<and>
                  files (ses st') = files (ses st) \<and>
                  printed (ses st') = printed (bses b) @
                    [EpochThroughputLine epoch, ValidLine epoch v (exp v),
                     LearningRateLine (lr st * 0.25)] \<and>
                  model (ses st') = m2 \<and>
                  best_val st' = best_val st"
  proof (cases "improved v (best_val st)")
    case True
    with c obtain test_L m4 where
      "evaluate fw cfg m2 test_data = (Inr test_L, m4)" and
      "st' = \<lparr>ses = \<lparr>model = m4, learning_rate = learning_rate (bses b),
                      files = files (bses b) @ [(params_file cfg epoch, fw_params fw m4)],
                      printed = printed (bses b) @
                        [EpochThroughputLine epoch, ValidLine epoch v (exp v),
                         TestLine test_L (exp test_L)]\<rparr>,
              best_val = Some v, lr = lr st, val_L = Some v\<rparr>"
      by auto
    then show ?thesis
      using True f by (simp add: params_file_def)
  next
    case False
    with c f show ?thesis by simp
  qed
  from b v l main show ?thesis
    using decimal_value_str_nat [of epoch] digits_str_nat [of epoch] hd_str_nat [of epoch]
    by blast
qed

lemma toy_epoch12:
  "train_epoch (recording toy_framework) notebook_config toy_train toy_val toy_test 12
     (start_train rec_session 20) =
   Inr (toy_vars1\<lparr>ses := (ses toy_vars1)
          \<lparr>files := [(''standard_lstm_lm_200_wikitext-2-12.params'', 1)],
           printed := [EpochThroughputLine 12, ValidLine 12 5 (exp 5), TestLine 5 (exp 5)]\<rparr>\<rparr>)"
  by (simp add: train_epoch_def toy_train_def toy_val_def toy_test_def begin_epoch_def train_batch_def
      recording_def toy_framework_def notebook_config_def context_count_def rec_session_def
      toy_loss_def Let_def start_train_def end_epoch_def evaluate_def improved_def params_file_def
      str_nat.simps [of 12] str_nat.simps [of "Suc 0"] digit_char_def toy_vars1_def sum_list_replicate
      math_exp_small)

theorem train_epoch_actions_witness:
  "train_epoch (recording toy_framework) notebook_config toy_train toy_val toy_test 12
     (start_train rec_session 20) =
   Inr (toy_vars1\<lparr>ses := (ses toy_vars1)
          \<lparr>files := [(''standard_lstm_lm_200_wikitext-2-12.params'', 1)],
           printed := [EpochThroughputLine 12, ValidLine 12 5 (exp 5), TestLine 5 (exp 5)]\<rparr>\<rparr>) \<and>
   improved 5 (best_val (start_train rec_session 20)) \<and>
   str_nat 12 = ''12'' \<and> decimal_value ''12'' = 12 \<and>
   train_epoch (recording toy_framework) notebook_config toy_train toy_val toy_test 1 toy_vars1
     = Inr toy_vars2 \<and>
   val_L toy_vars2 = Some 5.2 \<and>
   \<not> improved 5.2 (best_val toy_vars1) \<and>
   files (ses toy_vars2) = files (ses toy_vars1) \<and>
   model (ses toy_vars2) = ((2, 5), [20, 20]) \<and>
   lr toy_vars2 = lr toy_vars1 * 0.25 \<and>
   learning_rate (ses toy_vars2) = lr toy_vars1 * 0.25"
proof -
  have i0: "improved 5 (best_val (start_train rec_session 20))"
    by (simp add: improved_def start_train_def)
  have i1: "\<not> improved 5.2 (best_val toy_vars1)"
    by (simp add: improved_def toy_vars1_def)
  have n: "str_nat 12 = ''12''"
    by (simp add: str_nat.simps [of 12] str_nat.simps [of "Suc 0"] digit_char_def)
  have f: "val_L toy_vars2 = Some 5.2 \<and>
           files (ses toy_vars2) = files (ses toy_vars1) \<and>
           model (ses toy_vars2) = ((2, 5), [20, 20]) \<and>
           lr toy_vars2 = lr toy_vars1 * 0.25 \<and>
           learning_rate (ses toy_vars2) = lr toy_vars1 * 0.25"
    by (simp add: toy_vars1_def toy_vars2_def)
  have d: "decimal_value ''12'' = 12"
    using train_epoch_actions [OF toy_epoch12] by (simp add: n)
  from train_epoch_actions [OF toy_epoch1] toy_epoch12 toy_epoch1 i0 i1 n f d
  show ?thesis by simp
qed



end
